theory Spec2Isabelle
  imports Main "HOL-Library.Multiset"
begin

section \<open>JavaScript values that cross the JSON boundary\<close>

text \<open>
  The store of \<^verbatim>\<open>src/contexts/RestaurantContext.tsx\<close> keeps six collections in React state.
  Four of them (menu items, categories, settings, discount milestones) are overwritten by
  \<^verbatim>\<open>importBusinessData\<close> with whatever \<^verbatim>\<open>JSON.parse\<close> returned, without any check, so at run
  time they hold arbitrary JSON values; they are modelled as such. The numbers of a JSON
  document are integers here; strings are lists of code units below 256.
  \<open>None\<close> of type \<open>json option\<close> is JavaScript's \<^verbatim>\<open>undefined\<close>.
\<close>

datatype json =
    JNull
  | JBool bool
  | JNum int
  | JStr string
  | JArr "json list"
  | JObj "(string \<times> json) list"

datatype js_error = SyntaxError | TypeError | Unmodelled

text \<open>Truthiness of a value, as tested by \<^verbatim>\<open>if (data.menuItems)\<close>.\<close>

fun truthy :: "json option \<Rightarrow> bool" where
  "truthy None = False"
| "truthy (Some JNull) = False"
| "truthy (Some (JBool b)) = b"
| "truthy (Some (JNum n)) = (n \<noteq> 0)"
| "truthy (Some (JStr s)) = (s \<noteq> [])"
| "truthy (Some (JArr xs)) = True"
| "truthy (Some (JObj kvs)) = True"

text \<open>
  Property read \<^verbatim>\<open>v.k\<close> on a value other than \<^verbatim>\<open>null\<close>, for the property names the source
  reads (none of which a built-in prototype defines): an object yields its own property,
  every other value yields \<^verbatim>\<open>undefined\<close>.
\<close>

fun get_prop :: "string \<Rightarrow> json \<Rightarrow> json option" where
  "get_prop k (JObj kvs) = map_of kvs k"
| "get_prop k v = None"

text \<open>Property read on any value: reading a property of \<^verbatim>\<open>null\<close> throws a TypeError.\<close>

definition js_get :: "json \<Rightarrow> string \<Rightarrow> js_error + json option" where
  "js_get v k = (if v = JNull then Inl TypeError else Inr (get_prop k v))"

text \<open>
  Object spread with one overridden property, \<^verbatim>\<open>{ ...item, k: v }\<close>, on the property
  list of an object: an existing key keeps its place, a new key goes last.
\<close>

fun obj_set :: "string \<Rightarrow> json \<Rightarrow> (string \<times> json) list \<Rightarrow> (string \<times> json) list" where
  "obj_set k v [] = [(k, v)]"
| "obj_set k v ((k', v') # kvs) =
     (if k' = k then (k, v) # kvs else (k', v') # obj_set k v kvs)"

text \<open>Receiver of \<^verbatim>\<open>.map\<close>, \<^verbatim>\<open>.filter\<close> and \<^verbatim>\<open>.find\<close>: only an array has these methods.\<close>

fun js_array :: "json \<Rightarrow> js_error + json list" where
  "js_array (JArr xs) = Inr xs"
| "js_array v = Inl TypeError"

text \<open>Array spread \<^verbatim>\<open>[...prev]\<close>: arrays and strings are iterable, nothing else in JSON is.\<close>

fun js_spread :: "json \<Rightarrow> js_error + json list" where
  "js_spread (JArr xs) = Inr xs"
| "js_spread (JStr s) = Inr (map (\<lambda>c. JStr [c]) s)"
| "js_spread v = Inl TypeError"

fun includes_str :: "string \<Rightarrow> string \<Rightarrow> bool" where
  "includes_str [] p = (p = [])"
| "includes_str (c # s) p = (take (length p) (c # s) = p \<or> includes_str s p)"

text \<open>\<^verbatim>\<open>prev.includes(x)\<close> for a string \<open>x\<close>: arrays and strings have the method.\<close>

fun js_includes :: "json \<Rightarrow> string \<Rightarrow> js_error + bool" where
  "js_includes (JArr xs) x = Inr (JStr x \<in> set xs)"
| "js_includes (JStr s) x = Inr (includes_str s x)"
| "js_includes v x = Inl TypeError"

text \<open>\<^verbatim>\<open>String.prototype.trim\<close> on code units below 256.\<close>

definition is_space :: "char \<Rightarrow> bool" where
  "is_space c = (c \<in> set [CHR 0x09, CHR 0x0A, CHR 0x0B, CHR 0x0C, CHR 0x0D, CHR 0x20, CHR 0xA0])"

definition trim :: "string \<Rightarrow> string" where
  "trim s = rev (dropWhile is_space (rev (dropWhile is_space s)))"

text \<open>Decimal text of an integer, as template strings and \<^verbatim>\<open>JSON.stringify\<close> print it.\<close>

fun show_nat :: "nat \<Rightarrow> string" where
  "show_nat n =
     (if n < 10 then [''0123456789'' ! n]
      else show_nat (n div 10) @ [''0123456789'' ! (n mod 10)])"

declare show_nat.simps [simp del]

definition show_int :: "int \<Rightarrow> string" where
  "show_int i = (if i < 0 then CHR ''-'' # show_nat (nat (- i)) else show_nat (nat i))"

fun join :: "string \<Rightarrow> string list \<Rightarrow> string" where
  "join sep [] = []"
| "join sep [x] = x"
| "join sep (x # y # ys) = x @ sep @ join sep (y # ys)"

text \<open>String conversion of a value inside a template string \<^verbatim>\<open>`...${v}`\<close>.\<close>

fun to_str :: "json \<Rightarrow> string" where
  "to_str JNull = ''null''"
| "to_str (JBool b) = (if b then ''true'' else ''false'')"
| "to_str (JNum n) = show_int n"
| "to_str (JStr s) = s"
| "to_str (JArr xs) = join '','' (map (\<lambda>x. if x = JNull then [] else to_str x) xs)"
| "to_str (JObj kvs) = ''[object Object]''"

definition to_string :: "json option \<Rightarrow> string" where
  "to_string v = (case v of None \<Rightarrow> ''undefined'' | Some j \<Rightarrow> to_str j)"

section \<open>Numbers\<close>

text \<open>
  The numbers of the language are the IEEE 754 binary64 values. Every finite one is an
  integer multiple of \<^verbatim>\<open>2^-1074\<close>, with at most 53 significant bits and a magnitude below
  \<^verbatim>\<open>2^1024\<close>: \<open>Fin x\<close> is the number \<^verbatim>\<open>x * 2^-1074\<close>, and \<open>is_double x\<close> says that it is
  one. The two zeros are one value, as they are for \<^verbatim>\<open>===\<close>.
\<close>

datatype number = Fin int | PInf | NInf | NaN

fun bitlen :: "nat \<Rightarrow> nat" where
  "bitlen n = (if n = 0 then 0 else Suc (bitlen (n div 2)))"

declare bitlen.simps [simp del]

definition is_double :: "int \<Rightarrow> bool" where
  "is_double x =
     (\<bar>x\<bar> < 2 ^ 2098 \<and>
      (bitlen (nat \<bar>x\<bar>) \<le> 53 \<or> 2 ^ (bitlen (nat \<bar>x\<bar>) - 53) dvd x))"

text \<open>
  Rounding of an exact result \<^verbatim>\<open>x * 2^-1074\<close> to the nearest number, ties to the even
  significand; a result of magnitude \<^verbatim>\<open>2^1024\<close> or more is infinite.
\<close>

definition round_double :: "int \<Rightarrow> number" where
  "round_double x =
     (let n = bitlen (nat \<bar>x\<bar>) in
      if n \<le> 53 then Fin x
      else
        let k = n - 53;
            q = x div 2 ^ k;
            r = x mod 2 ^ k;
            h = 2 ^ (k - 1);
            m = (if h < r \<or> (r = h \<and> odd q) then q + 1 else q);
            y = m * 2 ^ k
        in if 2 ^ 2098 \<le> y then PInf else if y \<le> - (2 ^ 2098) then NInf else Fin y)"

text \<open>The number that an integer of a JSON document denotes.\<close>

definition num_of_int :: "int \<Rightarrow> number" where
  "num_of_int c = round_double (c * 2 ^ 1074)"

text \<open>Unary minus and binary plus on numbers.\<close>

fun js_neg :: "number \<Rightarrow> number" where
  "js_neg (Fin x) = Fin (- x)"
| "js_neg PInf = NInf"
| "js_neg NInf = PInf"
| "js_neg NaN = NaN"

fun js_add :: "number \<Rightarrow> number \<Rightarrow> number" where
  "js_add (Fin x) (Fin y) = round_double (x + y)"
| "js_add NaN y = NaN"
| "js_add x NaN = NaN"
| "js_add PInf NInf = NaN"
| "js_add NInf PInf = NaN"
| "js_add PInf y = PInf"
| "js_add NInf y = NInf"
| "js_add x PInf = PInf"
| "js_add x NInf = NInf"

section \<open>Data model\<close>

text \<open>
  The declarations of \<^verbatim>\<open>../types\<close> are not among the sources; the records below hold the
  fields that the store reads or writes, and the remaining ones as a property list.
\<close>

record MenuItem =
  item_id :: string
  name :: string
  category :: string
  item_attrs :: "(string \<times> json) list"

definition MenuItem_json :: "MenuItem \<Rightarrow> json" where
  "MenuItem_json i =
     JObj ([(''id'', JStr (item_id i)), (''name'', JStr (name i)),
            (''category'', JStr (category i))] @ item_attrs i)"

record DiscountMilestone =
  threshold :: int
  percentage :: int

definition DiscountMilestone_json :: "DiscountMilestone \<Rightarrow> json" where
  "DiscountMilestone_json m =
     JObj [(''threshold'', JNum (threshold m)), (''percentage'', JNum (percentage m))]"

text \<open>\<^verbatim>\<open>Omit<Order, 'id' | 'status' | 'timestamp'>\<close>, the argument of \<^verbatim>\<open>placeOrder\<close>.\<close>

record OrderData =
  isTakeaway :: bool
  packingCharge :: number
  order_total :: number
  order_attrs :: "(string \<times> json) list"

record Order = OrderData +
  order_id :: string
  status :: string
  timestamp :: int

datatype ActivityType = CREATE | UPDATE | DELETE | SYSTEM

datatype ActivityEntity = MENU_ITEM | CATEGORY | PROMOTION | SETTINGS

record ActivityEntry =
  entry_id :: string
  entry_type :: ActivityType
  entity :: ActivityEntity
  description :: string
  entry_timestamp :: int

text \<open>
  The state of the provider. Orders and the activity log are never written by the import;
  their fields take part in arithmetic and list operations, and they are held at their
  declared types.
\<close>

record store =
  menuItems :: json
  categories :: json
  orders :: "Order list"
  lastPlacedOrder :: "Order option"
  discountMilestones :: json
  settings :: json
  activityLog :: "ActivityEntry list"
  isAdmin :: bool

text \<open>
  What \<^verbatim>\<open>Math.random().toString(36).substr(2, 9)\<close> and \<^verbatim>\<open>Date.now()\<close> return when an
  operation runs; both are inputs of the model.
\<close>

record stamp =
  rand_id :: string
  now :: int

subsection \<open>Sorting with a comparator\<close>

text \<open>
  \<^verbatim>\<open>Array.prototype.sort(cmp)\<close> is a stable sort: \<open>a\<close> goes before \<open>b\<close> when
  \<open>cmp a b < 0\<close>, and elements that compare equal keep their order.
\<close>

fun js_insert :: "('a \<Rightarrow> 'a \<Rightarrow> int) \<Rightarrow> 'a \<Rightarrow> 'a list \<Rightarrow> 'a list" where
  "js_insert cmp x [] = [x]"
| "js_insert cmp x (y # ys) = (if cmp x y \<le> 0 then x # y # ys else y # js_insert cmp x ys)"

fun js_sort :: "('a \<Rightarrow> 'a \<Rightarrow> int) \<Rightarrow> 'a list \<Rightarrow> 'a list" where
  "js_sort cmp [] = []"
| "js_sort cmp (x # xs) = js_insert cmp x (js_sort cmp xs)"

section \<open>Operations of the store\<close>

text \<open>
  Each operation takes the state and returns the state that React commits. An operation
  whose state updater throws (a method called on a value that does not have it) has no
  committed state: its result is \<open>Inl\<close> the error. \<open>Inl Unmodelled\<close> is no exception: it
  marks the one run whose committed state the records below cannot hold (see
  \<open>toggleOrderTakeaway\<close>).
\<close>

definition logActivity ::
  "stamp \<Rightarrow> ActivityType \<Rightarrow> ActivityEntity \<Rightarrow> string \<Rightarrow> store \<Rightarrow> store" where
  "logActivity s ty en d st =
     (let newEntry = \<lparr>entry_id = rand_id s, entry_type = ty, entity = en,
                       description = d, entry_timestamp = now s\<rparr>
      in st\<lparr>activityLog := take 100 (newEntry # activityLog st)\<rparr>)"

definition login :: "string \<Rightarrow> store \<Rightarrow> bool \<times> store" where
  "login password st =
     (if password = ''admin123'' then (True, st\<lparr>isAdmin := True\<rparr>) else (False, st))"

definition logout :: "store \<Rightarrow> store" where
  "logout st = st\<lparr>isAdmin := False\<rparr>"

definition addMenuItem :: "stamp \<Rightarrow> MenuItem \<Rightarrow> store \<Rightarrow> js_error + store" where
  "addMenuItem s item st =
     (case js_spread (menuItems st) of
        Inl e \<Rightarrow> Inl e
      | Inr prev \<Rightarrow>
          Inr (logActivity s CREATE MENU_ITEM (''Added new dish: '' @ name item)
                 (st\<lparr>menuItems := JArr (prev @ [MenuItem_json item])\<rparr>)))"

text \<open>
  The callbacks below read \<^verbatim>\<open>item.id\<close> or \<^verbatim>\<open>item.category\<close> of every element, which
  throws on a \<^verbatim>\<open>null\<close> element.
\<close>

definition updateMenuItem :: "stamp \<Rightarrow> MenuItem \<Rightarrow> store \<Rightarrow> js_error + store" where
  "updateMenuItem s updatedItem st =
     (case js_array (menuItems st) of
        Inl e \<Rightarrow> Inl e
      | Inr prev \<Rightarrow>
          if JNull \<in> set prev then Inl TypeError
          else Inr (logActivity s UPDATE MENU_ITEM (''Updated dish: '' @ name updatedItem)
                 (st\<lparr>menuItems := JArr (map (\<lambda>item.
                        if get_prop ''id'' item = Some (JStr (item_id updatedItem))
                        then MenuItem_json updatedItem else item) prev)\<rparr>)))"

definition deleteMenuItem :: "stamp \<Rightarrow> string \<Rightarrow> store \<Rightarrow> js_error + store" where
  "deleteMenuItem s ident st =
     (case js_array (menuItems st) of
        Inl e \<Rightarrow> Inl e
      | Inr prev \<Rightarrow>
          if JNull \<in> set prev then Inl TypeError
          else
            let st' = st\<lparr>menuItems :=
                        JArr (filter (\<lambda>item. get_prop ''id'' item \<noteq> Some (JStr ident)) prev)\<rparr>
            in (case find (\<lambda>i. get_prop ''id'' i = Some (JStr ident)) prev of
                  None \<Rightarrow> Inr st'
                | Some itemToDelete \<Rightarrow>
                    Inr (logActivity s DELETE MENU_ITEM
                           (''Deleted dish: '' @ to_string (get_prop ''name'' itemToDelete)) st')))"

definition addCategory :: "stamp \<Rightarrow> string \<Rightarrow> store \<Rightarrow> js_error + store" where
  "addCategory s nm st =
     (let trimmed = trim nm in
      if trimmed = [] then Inr st
      else (case js_includes (categories st) trimmed of
              Inl e \<Rightarrow> Inl e
            | Inr True \<Rightarrow> Inr st
            | Inr False \<Rightarrow>
                (case js_spread (categories st) of
                   Inl e \<Rightarrow> Inl e
                 | Inr prev \<Rightarrow>
                     Inr (logActivity s CREATE CATEGORY (''Created category: '' @ trimmed)
                            (st\<lparr>categories := JArr (prev @ [JStr trimmed])\<rparr>)))))"

text \<open>
  \<^verbatim>\<open>item.category === oldName ? { ...item, category: trimmedNew } : item\<close>: only an object
  can have the property, so only an object is ever spread.
\<close>

fun rename_item :: "string \<Rightarrow> string \<Rightarrow> json \<Rightarrow> json" where
  "rename_item oldName trimmedNew (JObj kvs) =
     (if map_of kvs ''category'' = Some (JStr oldName)
      then JObj (obj_set ''category'' (JStr trimmedNew) kvs) else JObj kvs)"
| "rename_item oldName trimmedNew item = item"

definition renameCategory :: "stamp \<Rightarrow> string \<Rightarrow> string \<Rightarrow> store \<Rightarrow> js_error + store" where
  "renameCategory s oldName newName st =
     (let trimmedNew = trim newName in
      if trimmedNew = [] \<or> trimmedNew = oldName then Inr st
      else (case js_array (categories st) of
              Inl e \<Rightarrow> Inl e
            | Inr cats \<Rightarrow>
                (case js_array (menuItems st) of
                   Inl e \<Rightarrow> Inl e
                 | Inr items \<Rightarrow>
                     if JNull \<in> set items then Inl TypeError
                     else Inr (logActivity s UPDATE CATEGORY
                            (''Renamed category: '' @ oldName @ '' to '' @ trimmedNew)
                            (st\<lparr>categories :=
                                  JArr (map (\<lambda>c. if c = JStr oldName then JStr trimmedNew else c) cats),
                                menuItems := JArr (map (rename_item oldName trimmedNew) items)\<rparr>)))))"

definition removeCategory :: "stamp \<Rightarrow> string \<Rightarrow> store \<Rightarrow> js_error + store" where
  "removeCategory s nm st =
     (case js_array (categories st) of
        Inl e \<Rightarrow> Inl e
      | Inr cats \<Rightarrow>
          (case js_array (menuItems st) of
             Inl e \<Rightarrow> Inl e
           | Inr items \<Rightarrow>
               if JNull \<in> set items then Inl TypeError
               else Inr (logActivity s DELETE CATEGORY (''Permanently deleted category: '' @ nm)
                      (st\<lparr>categories := JArr (filter (\<lambda>c. c \<noteq> JStr nm) cats),
                          menuItems :=
                            JArr (filter (\<lambda>item. get_prop ''category'' item \<noteq> Some (JStr nm)) items)\<rparr>))))"

text \<open>
  \<^verbatim>\<open>[...milestones].sort((a, b) => a.threshold - b.threshold)\<close>, stored as the array of
  the sorted objects.
\<close>

definition updateDiscountMilestones :: "stamp \<Rightarrow> DiscountMilestone list \<Rightarrow> store \<Rightarrow> store" where
  "updateDiscountMilestones s milestones st =
     logActivity s UPDATE PROMOTION ''Updated automatic discount milestones''
       (st\<lparr>discountMilestones := JArr (map DiscountMilestone_json
                  (js_sort (\<lambda>a b. threshold a - threshold b) milestones))\<rparr>)"

definition updateSettings :: "stamp \<Rightarrow> json \<Rightarrow> store \<Rightarrow> store" where
  "updateSettings s newSettings st =
     logActivity s UPDATE SETTINGS ''Updated restaurant branding & settings''
       (st\<lparr>settings := newSettings\<rparr>)"

definition placeOrder :: "stamp \<Rightarrow> OrderData \<Rightarrow> store \<Rightarrow> store" where
  "placeOrder s newOrderData st =
     (let newOrder = \<lparr>isTakeaway = isTakeaway newOrderData,
                       packingCharge = packingCharge newOrderData,
                       order_total = order_total newOrderData,
                       order_attrs = order_attrs newOrderData,
                       order_id = rand_id s, status = ''PENDING'', timestamp = now s\<rparr>
      in st\<lparr>orders := newOrder # orders st, lastPlacedOrder := Some newOrder\<rparr>)"

definition updateOrderStatus :: "string \<Rightarrow> string \<Rightarrow> store \<Rightarrow> store" where
  "updateOrderStatus orderId new_status st =
     st\<lparr>orders := map (\<lambda>order. if order_id order = orderId
                                 then order\<lparr>status := new_status\<rparr> else order) (orders st)\<rparr>"

text \<open>
  The callback of \<^verbatim>\<open>toggleOrderTakeaway\<close> on one order, \<open>charge\<close> being the value of
  \<^verbatim>\<open>settings.packingCharge\<close>.
\<close>

definition toggle_order :: "number \<Rightarrow> string \<Rightarrow> Order \<Rightarrow> Order" where
  "toggle_order charge orderId order =
     (if order_id order = orderId then
        (let nextTakeaway = \<not> isTakeaway order;
             packingDiff = (if nextTakeaway then charge else js_neg charge)
         in order\<lparr>isTakeaway := nextTakeaway,
                  packingCharge := (if nextTakeaway then charge else Fin 0),
                  order_total := js_add (order_total order) packingDiff\<rparr>)
      else order)"

text \<open>
  \<^verbatim>\<open>settings.packingCharge\<close> is read only when an order matches. Reading it from \<^verbatim>\<open>null\<close>
  throws. Its declared type is \<^verbatim>\<open>number\<close>. When the settings hold another value there
  (after an import of such a document), the code throws nothing and commits orders whose
  packing charge or total is that value, a string or \<^verbatim>\<open>NaN\<close>; the records of this model do
  not hold such orders, and \<open>Inl Unmodelled\<close> stands for a run that leaves the model, not for
  an exception.
\<close>

definition toggleOrderTakeaway :: "string \<Rightarrow> store \<Rightarrow> js_error + store" where
  "toggleOrderTakeaway orderId st =
     (if orderId \<notin> set (map order_id (orders st)) then Inr st
      else (case js_get (settings st) ''packingCharge'' of
              Inl e \<Rightarrow> Inl e
            | Inr (Some (JNum charge)) \<Rightarrow>
                Inr (st\<lparr>orders := map (toggle_order (num_of_int charge) orderId) (orders st)\<rparr>)
            | Inr other \<Rightarrow> Inl Unmodelled))"

definition clearHistory :: "stamp \<Rightarrow> store \<Rightarrow> store" where
  "clearHistory s st =
     logActivity s SYSTEM SETTINGS ''Activity history was cleared'' (st\<lparr>activityLog := []\<rparr>)"

subsection \<open>Export and import\<close>



text \<open>\<^verbatim>\<open>if (v) setX(v)\<close>\<close>

definition set_if_truthy :: "json option \<Rightarrow> (json \<Rightarrow> store \<Rightarrow> store) \<Rightarrow> store \<Rightarrow> store" where
  "set_if_truthy v setX st = (case v of Some j \<Rightarrow> if truthy v then setX j st else st | None \<Rightarrow> st)"

text \<open>
  The body of the \<^verbatim>\<open>try\<close> block after the parse. A property read that throws leaves the
  setters already called in effect; the \<^verbatim>\<open>catch\<close> block then returns \<^verbatim>\<open>false\<close>.
\<close>

definition import_parsed :: "stamp \<Rightarrow> json \<Rightarrow> store \<Rightarrow> bool \<times> store" where
  "import_parsed s data st =
     (case js_get data ''menuItems'' of
        Inl e \<Rightarrow> (False, st)
      | Inr v1 \<Rightarrow>
     let st1 = set_if_truthy v1 (\<lambda>j t. t\<lparr>menuItems := j\<rparr>) st in
     (case js_get data ''categories'' of
        Inl e \<Rightarrow> (False, st1)
      | Inr v2 \<Rightarrow>
     let st2 = set_if_truthy v2 (\<lambda>j t. t\<lparr>categories := j\<rparr>) st1 in
     (case js_get data ''settings'' of
        Inl e \<Rightarrow> (False, st2)
      | Inr v3 \<Rightarrow>
     let st3 = set_if_truthy v3 (\<lambda>j t. t\<lparr>settings := j\<rparr>) st2 in
     (case js_get data ''discountMilestones'' of
        Inl e \<Rightarrow> (False, st3)
      | Inr v4 \<Rightarrow>
     let st4 = set_if_truthy v4 (\<lambda>j t. t\<lparr>discountMilestones := j\<rparr>) st3 in
     (True, logActivity s SYSTEM SETTINGS ''Imported external business configuration'' st4)))))"

definition importBusinessData ::
  "(string \<Rightarrow> json option) \<Rightarrow> stamp \<Rightarrow> string \<Rightarrow> store \<Rightarrow> bool \<times> store" where
  "importBusinessData parse s jsonStr st =
     (case parse jsonStr of
        None \<Rightarrow> (False, st)
      | Some data \<Rightarrow> import_parsed s data st)"

subsection \<open>Sequences of operations\<close>

datatype operation =
    Login string
  | Logout
  | AddMenuItem stamp MenuItem
  | UpdateMenuItem stamp MenuItem
  | DeleteMenuItem stamp string
  | AddCategory stamp string
  | RenameCategory stamp string string
  | RemoveCategory stamp string
  | UpdateDiscountMilestones stamp "DiscountMilestone list"
  | UpdateSettings stamp json
  | PlaceOrder stamp OrderData
  | UpdateOrderStatus string string
  | ToggleOrderTakeaway string
  | ClearHistory stamp
  | ImportBusinessData stamp string

fun perform :: "(string \<Rightarrow> json option) \<Rightarrow> operation \<Rightarrow> store \<Rightarrow> js_error + store" where
  "perform parse (Login password) st = Inr (snd (login password st))"
| "perform parse Logout st = Inr (logout st)"
| "perform parse (AddMenuItem s item) st = addMenuItem s item st"
| "perform parse (UpdateMenuItem s item) st = updateMenuItem s item st"
| "perform parse (DeleteMenuItem s ident) st = deleteMenuItem s ident st"
| "perform parse (AddCategory s nm) st = addCategory s nm st"
| "perform parse (RenameCategory s oldName newName) st = renameCategory s oldName newName st"
| "perform parse (RemoveCategory s nm) st = removeCategory s nm st"
| "perform parse (UpdateDiscountMilestones s ms) st = Inr (updateDiscountMilestones s ms st)"
| "perform parse (UpdateSettings s newSettings) st = Inr (updateSettings s newSettings st)"
| "perform parse (PlaceOrder s d) st = Inr (placeOrder s d st)"
| "perform parse (UpdateOrderStatus orderId new_status) st =
     Inr (updateOrderStatus orderId new_status st)"
| "perform parse (ToggleOrderTakeaway orderId) st = toggleOrderTakeaway orderId st"
| "perform parse (ClearHistory s) st = Inr (clearHistory s st)"
| "perform parse (ImportBusinessData s jsonStr) st =
     Inr (snd (importBusinessData parse s jsonStr st))"

fun run :: "(string \<Rightarrow> json option) \<Rightarrow> operation list \<Rightarrow> store \<Rightarrow> js_error + store" where
  "run parse [] st = Inr st"
| "run parse (op # ops) st =
     (case perform parse op st of Inl e \<Rightarrow> Inl e | Inr st' \<Rightarrow> run parse ops st')"

section \<open>Loading a tenant's data\<close>

text \<open>
  The first effect of the provider reads six keys of \<^verbatim>\<open>localStorage\<close> and calls the state
  setters. The model records what each setter was last called with: the value parsed from
  storage, the built-in default (\<^verbatim>\<open>MENU_ITEMS\<close>, \<^verbatim>\<open>Object.values(Category)\<close>; the constants
  are not among the sources), the default settings under the name derived from the tenant
  id, or nothing, in which case the state keeps the initial value given to \<^verbatim>\<open>useState\<close>.
\<close>

datatype setting = Initial | Parsed json | Default | DefaultNamed "string option"

record loaded =
  l_menuItems :: setting
  l_categories :: setting
  l_orders :: setting
  l_discountMilestones :: setting
  l_settings :: setting
  l_activityLog :: setting
  isInitialized :: bool
  load_failed :: bool

record keys =
  k_menu :: string
  k_orders :: string
  k_cats :: string
  k_discounts :: string
  k_settings :: string
  k_log :: string

definition getKeys :: "string \<Rightarrow> keys" where
  "getKeys ident =
     \<lparr>k_menu = ''menu_db_'' @ ident, k_orders = ''orders_db_'' @ ident,
      k_cats = ''categories_db_'' @ ident, k_discounts = ''discounts_db_'' @ ident,
      k_settings = ''settings_db_'' @ ident, k_log = ''activity_log_'' @ ident\<rparr>"

text \<open>\<^verbatim>\<open>params.get('id') || 'default-cafe'\<close>\<close>

definition resolve_tenant :: "string option \<Rightarrow> string" where
  "resolve_tenant p = (case p of None \<Rightarrow> ''default-cafe'' | Some i \<Rightarrow> if i = [] then ''default-cafe'' else i)"

text \<open>
  \<^verbatim>\<open>toUpperCase\<close> on one code unit below 256. The letters a to z and the Latin-1 letters
  from 0xE0 to 0xFE (0xF7, the division sign, is not a letter) move down by 32; the sharp s
  becomes \<^verbatim>\<open>SS\<close>; the micro sign and the y with diaeresis have upper-case forms above 255,
  which the strings of this model do not hold: \<open>None\<close>. Every other code unit is kept.
\<close>

definition upper_char :: "char \<Rightarrow> string option" where
  "upper_char c =
     (let n = (of_char c :: nat) in
      if 97 \<le> n \<and> n \<le> 122 then Some [char_of (n - 32)]
      else if 224 \<le> n \<and> n \<le> 254 \<and> n \<noteq> 247 then Some [char_of (n - 32)]
      else if n = 223 then Some ''SS''
      else if n = 181 \<or> n = 255 then None
      else Some [c])"

text \<open>\<^verbatim>\<open>tenantId.replace(/-/g, ' ').toUpperCase()\<close>\<close>

definition derived_name :: "string \<Rightarrow> string option" where
  "derived_name tenantId =
     map_option concat
       (those (map (\<lambda>c. upper_char (if c = CHR ''-'' then CHR '' '' else c)) tenantId))"

definition unloaded :: loaded where
  "unloaded = \<lparr>l_menuItems = Initial, l_categories = Initial, l_orders = Initial,
               l_discountMilestones = Initial, l_settings = Initial, l_activityLog = Initial,
               isInitialized = False, load_failed = False\<rparr>"

text \<open>
  The \<^verbatim>\<open>try\<close> block, statement by statement. The result is \<open>Inl\<close> the setters called so
  far when a \<^verbatim>\<open>JSON.parse\<close> throws, \<open>Inr\<close> when the block runs to its end.
\<close>

definition load_try ::
  "(string \<Rightarrow> json option) \<Rightarrow> (string \<Rightarrow> string option) \<Rightarrow> string \<Rightarrow> loaded + loaded" where
  "load_try parse getItem tenantId =
     (let ks = getKeys tenantId;
          savedMenu = getItem (k_menu ks);
          savedOrders = getItem (k_orders ks);
          savedCats = getItem (k_cats ks);
          savedDiscounts = getItem (k_discounts ks);
          savedSettings = getItem (k_settings ks);
          savedLog = getItem (k_log ks);
          l0 = unloaded
      in
      case (if savedMenu \<noteq> None \<and> savedMenu \<noteq> Some ''undefined''
            then (case parse (the savedMenu) of
                    None \<Rightarrow> Inl l0 | Some j \<Rightarrow> Inr (l0\<lparr>l_menuItems := Parsed j\<rparr>))
            else Inr (l0\<lparr>l_menuItems := Default\<rparr>)) of
        Inl l \<Rightarrow> Inl l
      | Inr l1 \<Rightarrow>
      case (if savedCats \<noteq> None \<and> savedCats \<noteq> Some ''undefined''
            then (case parse (the savedCats) of
                    None \<Rightarrow> Inl l1 | Some j \<Rightarrow> Inr (l1\<lparr>l_categories := Parsed j\<rparr>))
            else Inr (l1\<lparr>l_categories := Default\<rparr>)) of
        Inl l \<Rightarrow> Inl l
      | Inr l2 \<Rightarrow>
      case (if savedOrders \<noteq> None \<and> savedOrders \<noteq> Some []
            then (case parse (the savedOrders) of
                    None \<Rightarrow> Inl l2 | Some j \<Rightarrow> Inr (l2\<lparr>l_orders := Parsed j\<rparr>))
            else Inr l2) of
        Inl l \<Rightarrow> Inl l
      | Inr l3 \<Rightarrow>
      case (if savedDiscounts \<noteq> None \<and> savedDiscounts \<noteq> Some []
            then (case parse (the savedDiscounts) of
                    None \<Rightarrow> Inl l3 | Some j \<Rightarrow> Inr (l3\<lparr>l_discountMilestones := Parsed j\<rparr>))
            else Inr l3) of
        Inl l \<Rightarrow> Inl l
      | Inr l4 \<Rightarrow>
      case (if savedSettings \<noteq> None \<and> savedSettings \<noteq> Some []
            then (case parse (the savedSettings) of
                    None \<Rightarrow> Inl l4 | Some j \<Rightarrow> Inr (l4\<lparr>l_settings := Parsed j\<rparr>))
            else Inr (l4\<lparr>l_settings := DefaultNamed (derived_name tenantId)\<rparr>)) of
        Inl l \<Rightarrow> Inl l
      | Inr l5 \<Rightarrow>
      case (if savedLog \<noteq> None \<and> savedLog \<noteq> Some []
            then (case parse (the savedLog) of
                    None \<Rightarrow> Inl l5 | Some j \<Rightarrow> Inr (l5\<lparr>l_activityLog := Parsed j\<rparr>))
            else Inr l5) of
        Inl l \<Rightarrow> Inl l
      | Inr l6 \<Rightarrow> Inr (l6\<lparr>isInitialized := True\<rparr>))"

text \<open>The effect: the \<^verbatim>\<open>try\<close> block, and the \<^verbatim>\<open>catch\<close> block when it threw.\<close>

definition load_effect ::
  "(string \<Rightarrow> json option) \<Rightarrow> (string \<Rightarrow> string option) \<Rightarrow> string \<Rightarrow> loaded" where
  "load_effect parse getItem tenantId =
     (case load_try parse getItem tenantId of
        Inr l \<Rightarrow> l
      | Inl l \<Rightarrow> l\<lparr>l_menuItems := Default, l_categories := Default,
                   isInitialized := True, load_failed := True\<rparr>)"

section \<open>A reference JSON codec\<close>

text \<open>
  The operations above are parameterised by the parser and the printer. The codec of this
  section instantiates them at concrete texts. It covers the JSON texts whose numbers are
  integers and whose strings consist of code units below 256; on those it follows the
  grammar of the standard.
\<close>

definition hex_digit :: "nat \<Rightarrow> char" where
  "hex_digit n = ''0123456789abcdef'' ! n"

definition escape_char :: "char \<Rightarrow> string" where
  "escape_char c =
     (if c = CHR 0x22 then [CHR 0x5C, CHR 0x22]
      else if c = CHR 0x5C then [CHR 0x5C, CHR 0x5C]
      else if c = CHR 0x08 then [CHR 0x5C, CHR ''b'']
      else if c = CHR 0x0C then [CHR 0x5C, CHR ''f'']
      else if c = CHR 0x0A then [CHR 0x5C, CHR ''n'']
      else if c = CHR 0x0D then [CHR 0x5C, CHR ''r'']
      else if c = CHR 0x09 then [CHR 0x5C, CHR ''t'']
      else if (of_char c :: nat) < 32
        then [CHR 0x5C, CHR ''u'', CHR ''0'', CHR ''0'',
              hex_digit (of_char c div 16), hex_digit (of_char c mod 16)]
      else [c])"

definition quote :: "string \<Rightarrow> string" where
  "quote s = CHR 0x22 # concat (map escape_char s) @ [CHR 0x22]"

primrec ref_stringify :: "json \<Rightarrow> string" where
  "ref_stringify JNull = ''null''"
| "ref_stringify (JBool b) = (if b then ''true'' else ''false'')"
| "ref_stringify (JNum n) = show_int n"
| "ref_stringify (JStr s) = quote s"
| "ref_stringify (JArr xs) = ''['' @ join '','' (map ref_stringify xs) @ '']''"
| "ref_stringify (JObj kvs) =
     ''{'' @ join '','' (map (\<lambda>(k, t). quote k @ '':'' @ t) (map (map_prod id ref_stringify) kvs))
       @ ''}''"

definition is_ws :: "char \<Rightarrow> bool" where
  "is_ws c = (c \<in> set [CHR 0x20, CHR 0x09, CHR 0x0A, CHR 0x0D])"

definition skip_ws :: "string \<Rightarrow> string" where
  "skip_ws s = dropWhile is_ws s"

definition is_digit :: "char \<Rightarrow> bool" where
  "is_digit c = (48 \<le> (of_char c :: nat) \<and> (of_char c :: nat) \<le> 57)"

definition read_nat :: "string \<Rightarrow> nat" where
  "read_nat ds = foldl (\<lambda>n c. 10 * n + (of_char c - 48)) 0 ds"

definition hex_value :: "char \<Rightarrow> nat option" where
  "hex_value c =
     (let n = (of_char c :: nat) in
      if 48 \<le> n \<and> n \<le> 57 then Some (n - 48)
      else if 97 \<le> n \<and> n \<le> 102 then Some (n - 87)
      else if 65 \<le> n \<and> n \<le> 70 then Some (n - 55)
      else None)"

definition unescape :: "char \<Rightarrow> char option" where
  "unescape e =
     (if e = CHR 0x22 \<or> e = CHR 0x5C \<or> e = CHR ''/'' then Some e
      else if e = CHR ''b'' then Some (CHR 0x08)
      else if e = CHR ''f'' then Some (CHR 0x0C)
      else if e = CHR ''n'' then Some (CHR 0x0A)
      else if e = CHR ''r'' then Some (CHR 0x0D)
      else if e = CHR ''t'' then Some (CHR 0x09)
      else None)"

text \<open>The characters of a string literal after its opening quote, and the text after it.\<close>

fun parse_chars :: "string \<Rightarrow> (string \<times> string) option" where
  "parse_chars [] = None"
| "parse_chars (c # r) =
     (if c = CHR 0x22 then Some ([], r)
      else if c = CHR 0x5C then
        (case r of
           [] \<Rightarrow> None
         | e # r' \<Rightarrow>
             if e = CHR ''u'' then
               (case r' of
                  h1 # h2 # h3 # h4 # r'' \<Rightarrow>
                    (case (hex_value h1, hex_value h2, hex_value h3, hex_value h4) of
                       (Some 0, Some 0, Some a, Some b) \<Rightarrow>
                         map_option (apfst (Cons (char_of (16 * a + b)))) (parse_chars r'')
                     | _ \<Rightarrow> None)
                | _ \<Rightarrow> None)
             else (case unescape e of
                     None \<Rightarrow> None
                   | Some ch \<Rightarrow> map_option (apfst (Cons ch)) (parse_chars r')))
      else if (of_char c :: nat) < 32 then None
      else map_option (apfst (Cons c)) (parse_chars r))"

definition parse_number :: "string \<Rightarrow> (json \<times> string) option" where
  "parse_number s =
     (let neg = (s \<noteq> [] \<and> hd s = CHR ''-'');
          r = (if neg then tl s else s);
          ds = takeWhile is_digit r;
          rest = dropWhile is_digit r
      in if ds = [] \<or> (length ds > 1 \<and> hd ds = CHR ''0'') then None
         else if rest \<noteq> [] \<and> hd rest \<in> set [CHR ''.'', CHR ''e'', CHR ''E''] then None
         else Some (JNum (if neg then - int (read_nat ds) else int (read_nat ds)), rest))"

definition parse_literal :: "string \<Rightarrow> (json \<times> string) option" where
  "parse_literal s =
     (if take 4 s = ''null'' then Some (JNull, drop 4 s)
      else if take 4 s = ''true'' then Some (JBool True, drop 4 s)
      else if take 5 s = ''false'' then Some (JBool False, drop 5 s)
      else parse_number s)"

text \<open>
  Values, array elements and object members, with a bound on the number of nested calls.
  A repeated key of an object overwrites the earlier value in place.
\<close>

fun parse_value :: "nat \<Rightarrow> string \<Rightarrow> (json \<times> string) option"
  and parse_elems :: "nat \<Rightarrow> json list \<Rightarrow> string \<Rightarrow> (json \<times> string) option"
  and parse_members :: "nat \<Rightarrow> (string \<times> json) list \<Rightarrow> string \<Rightarrow> (json \<times> string) option"
where
  "parse_value 0 s = None"
| "parse_value (Suc n) s =
     (case skip_ws s of
        [] \<Rightarrow> None
      | c # r \<Rightarrow>
          if c = CHR ''['' then
            (case skip_ws r of
               [] \<Rightarrow> None
             | d # r' \<Rightarrow> if d = CHR '']'' then Some (JArr [], r') else parse_elems n [] r)
          else if c = CHR ''{'' then
            (case skip_ws r of
               [] \<Rightarrow> None
             | d # r' \<Rightarrow> if d = CHR ''}'' then Some (JObj [], r') else parse_members n [] r)
          else if c = CHR 0x22 then map_option (apfst JStr) (parse_chars r)
          else parse_literal (c # r))"
| "parse_elems 0 acc s = None"
| "parse_elems (Suc n) acc s =
     (case parse_value n s of
        None \<Rightarrow> None
      | Some (v, r) \<Rightarrow>
          (case skip_ws r of
             [] \<Rightarrow> None
           | c # r' \<Rightarrow>
               if c = CHR '','' then parse_elems n (acc @ [v]) r'
               else if c = CHR '']'' then Some (JArr (acc @ [v]), r')
               else None))"
| "parse_members 0 acc s = None"
| "parse_members (Suc n) acc s =
     (case skip_ws s of
        [] \<Rightarrow> None
      | c # r \<Rightarrow>
          if c = CHR 0x22 then
            (case parse_chars r of
               None \<Rightarrow> None
             | Some (k, r1) \<Rightarrow>
                 (case skip_ws r1 of
                    [] \<Rightarrow> None
                  | c1 # r2 \<Rightarrow>
                      if c1 = CHR '':'' then
                        (case parse_value n r2 of
                           None \<Rightarrow> None
                         | Some (v, r3) \<Rightarrow>
                             (case skip_ws r3 of
                                [] \<Rightarrow> None
                              | c3 # r4 \<Rightarrow>
                                  if c3 = CHR '','' then parse_members n (obj_set k v acc) r4
                                  else if c3 = CHR ''}'' then Some (JObj (obj_set k v acc), r4)
                                  else None))
                      else None))
          else None)"

definition ref_parse :: "string \<Rightarrow> json option" where
  "ref_parse s =
     (case parse_value (2 * length s + 2) s of
        None \<Rightarrow> None
      | Some (v, r) \<Rightarrow> if skip_ws r = [] then Some v else None)"

subsection \<open>Values that the codec reads back\<close>



text \<open>Texts that may follow a number: the end, or a character that no number contains.\<close>

definition delimited :: "string \<Rightarrow> bool" where
  "delimited r = (r = [] \<or> (\<not> is_digit (hd r) \<and> hd r \<notin> set [CHR ''.'', CHR ''e'', CHR ''E'']))"



section \<open>Concrete states\<close>

definition stamp0 :: stamp where
  "stamp0 = \<lparr>rand_id = ''k3x9q2m1z'', now = 1700000000000\<rparr>"

definition item_A :: json where
  "item_A = JObj [(''id'', JStr ''a''), (''name'', JStr ''Cola''), (''category'', JStr ''Drinks'')]"

definition item_B :: json where
  "item_B = JObj [(''id'', JStr ''b''), (''name'', JStr ''Burger''), (''category'', JStr ''Food'')]"

text \<open>An order placed as takeaway while the packing charge of the settings was 20.\<close>

definition order1 :: Order where
  "order1 = \<lparr>isTakeaway = True, packingCharge = num_of_int 20, order_total = num_of_int 120,
             order_attrs = [], order_id = ''o1'', status = ''PENDING'',
             timestamp = 1690000000000\<rparr>"

text \<open>
  A store with two categories, one item in each, the order above, the initial three
  milestones, and settings whose packing charge has since been raised to 30.
\<close>

definition store0 :: store where
  "store0 =
     \<lparr>menuItems = JArr [item_A, item_B],
      categories = JArr [JStr ''Drinks'', JStr ''Food''],
      orders = [order1],
      lastPlacedOrder = None,
      discountMilestones =
        JArr (map DiscountMilestone_json
               [\<lparr>threshold = 1000, percentage = 10\<rparr>, \<lparr>threshold = 1500, percentage = 15\<rparr>,
                \<lparr>threshold = 2000, percentage = 20\<rparr>]),
      settings = JObj [(''name'', JStr ''MY CAFE''), (''packingCharge'', JNum 30)],
      activityLog = [],
      isAdmin = False\<rparr>"




text \<open>The same store with a full activity log.\<close>

definition entry0 :: ActivityEntry where
  "entry0 = \<lparr>entry_id = ''a1b2c3d4e'', entry_type = CREATE, entity = MENU_ITEM,
             description = ''Added new dish: Cola'', entry_timestamp = 1690000000000\<rparr>"

definition full_store :: store where
  "full_store = store0\<lparr>activityLog := replicate 100 entry0\<rparr>"

text \<open>
  Contents of \<^verbatim>\<open>localStorage\<close> for the tenant \<^verbatim>\<open>my-cafe\<close>: nothing stored; an emptied menu
  stored together with the text \<^verbatim>\<open>undefined\<close> under the orders key; the text
  \<^verbatim>\<open>undefined\<close> under the menu key only.
\<close>

definition storage_empty :: "string \<Rightarrow> string option" where
  "storage_empty k = None"

definition storage_orders_undefined :: "string \<Rightarrow> string option" where
  "storage_orders_undefined k =
     (if k = ''menu_db_my-cafe'' then Some ''[]''
      else if k = ''orders_db_my-cafe'' then Some ''undefined''
      else None)"

definition storage_menu_undefined :: "string \<Rightarrow> string option" where
  "storage_menu_undefined k = (if k = ''menu_db_my-cafe'' then Some ''undefined'' else None)"

section \<open>Discount milestones\<close>

lemma mset_js_insert: "mset (js_insert cmp x ys) = add_mset x (mset ys)"
  by (induction ys) auto

lemma mset_js_sort: "mset (js_sort cmp xs) = mset xs"
  by (induction xs) (auto simp: mset_js_insert)

lemma set_js_insert: "set (js_insert cmp x ys) = insert x (set ys)"
  by (induction ys) auto

lemma sorted_js_insert:
  "sorted (map threshold ys) \<Longrightarrow>
   sorted (map threshold (js_insert (\<lambda>a b. threshold a - threshold b) x ys))"
  by (induction ys) (auto simp: set_js_insert)

lemma sorted_js_sort: "sorted (map threshold (js_sort (\<lambda>a b. threshold a - threshold b) xs))"
  by (induction xs) (auto simp: sorted_js_insert)

text \<open>
  Claim C6. For every list of milestones, in any order, the list that
  \<^verbatim>\<open>updateDiscountMilestones\<close> stores is the comparator sort of the input, which is a
  permutation of the input and ascending in the thresholds.
\<close>

theorem updateDiscountMilestones_sorted_permutation:
  "discountMilestones (updateDiscountMilestones s milestones st) =
     JArr (map DiscountMilestone_json (js_sort (\<lambda>a b. threshold a - threshold b) milestones))
   \<and> mset (js_sort (\<lambda>a b. threshold a - threshold b) milestones) = mset milestones
   \<and> sorted (map threshold (js_sort (\<lambda>a b. threshold a - threshold b) milestones))"
  by (simp add: updateDiscountMilestones_def logActivity_def mset_js_sort sorted_js_sort)

section \<open>Import of a text that does not parse\<close>

lemma ref_parse_oops: "ref_parse ''{oops'' = None"
  by code_simp

text \<open>
  Claim C5. When the parser rejects the text, \<^verbatim>\<open>importBusinessData\<close> returns false and
  the state, hence each of its six collections, is the one before the call.
\<close>

theorem import_unparseable:
  "parse jsonStr = None \<Longrightarrow> importBusinessData parse s jsonStr st = (False, st)"
  by (simp add: importBusinessData_def)

theorem import_unparseable_witness:
  "ref_parse ''{oops'' = None \<and> importBusinessData ref_parse stamp0 ''{oops'' store0 = (False, store0)"
  using import_unparseable [of ref_parse "''{oops''" stamp0 store0] ref_parse_oops by simp

section \<open>Categories\<close>

text \<open>
  Claim C8. On a store whose categories and menu items are arrays (no element of the menu
  being \<^verbatim>\<open>null\<close>), \<^verbatim>\<open>removeCategory\<close> drops the name from the category list, drops every
  menu item whose category is that name and keeps the others as they are, and puts a
  DELETE/CATEGORY entry in front of the activity log, whether or not anything was removed.
  On the items A in Drinks and B in Food, removing Drinks leaves the category Food and the
  item B.
\<close>

theorem removeCategory_cascade:
  assumes "categories st = JArr cats" and "menuItems st = JArr items" and "JNull \<notin> set items"
  shows "\<exists>st'. removeCategory s nm st = Inr st'
    \<and> categories st' = JArr (filter (\<lambda>c. c \<noteq> JStr nm) cats)
    \<and> JStr nm \<notin> set (filter (\<lambda>c. c \<noteq> JStr nm) cats)
    \<and> menuItems st' = JArr (filter (\<lambda>item. get_prop ''category'' item \<noteq> Some (JStr nm)) items)
    \<and> activityLog st' =
         take 100 (\<lparr>entry_id = rand_id s, entry_type = DELETE, entity = CATEGORY,
                     description = ''Permanently deleted category: '' @ nm,
                     entry_timestamp = now s\<rparr> # activityLog st)
    \<and> orders st' = orders st \<and> settings st' = settings st
    \<and> discountMilestones st' = discountMilestones st"
  using assms by (simp add: removeCategory_def logActivity_def)

theorem removeCategory_cascade_witness:
  "categories store0 = JArr [JStr ''Drinks'', JStr ''Food'']
   \<and> menuItems store0 = JArr [item_A, item_B] \<and> JNull \<notin> set [item_A, item_B]
   \<and> (\<exists>st'. removeCategory stamp0 ''Drinks'' store0 = Inr st'
        \<and> categories st' = JArr [JStr ''Food'']
        \<and> menuItems st' = JArr [item_B]
        \<and> map entry_type (activityLog st') = [DELETE]
        \<and> map entity (activityLog st') = [CATEGORY])"
proof -
  have c: "categories store0 = JArr [JStr ''Drinks'', JStr ''Food'']"
    and m: "menuItems store0 = JArr [item_A, item_B]"
    and n: "JNull \<notin> set [item_A, item_B]"
    by (simp_all add: store0_def item_A_def item_B_def)
  from removeCategory_cascade [OF c m n, of stamp0 "''Drinks''"]
  show ?thesis using c m n
    by (auto simp: item_A_def item_B_def store0_def)
qed

text \<open>
  Claim C9. \<^verbatim>\<open>renameCategory\<close> does not keep category names unique: in a store whose
  categories are Drinks and Food, renaming Drinks to Food yields the list Food, Food, while
  \<^verbatim>\<open>addCategory\<close> of Food on the same store changes nothing.
\<close>

theorem renameCategory_duplicates:
  "\<exists>st st'. categories st = JArr [JStr ''Drinks'', JStr ''Food'']
     \<and> renameCategory stamp0 ''Drinks'' ''Food'' st = Inr st'
     \<and> categories st' = JArr [JStr ''Food'', JStr ''Food'']
     \<and> addCategory stamp0 ''Food'' st = Inr st"
  by (rule exI [of _ store0])
     (simp add: renameCategory_def addCategory_def trim_def is_space_def store0_def
        item_A_def item_B_def logActivity_def stamp0_def Let_def)

section \<open>The activity log\<close>

lemma logActivity_log:
  "activityLog (logActivity s ty en d st) =
     take 100 (\<lparr>entry_id = rand_id s, entry_type = ty, entity = en, description = d,
                 entry_timestamp = now s\<rparr> # activityLog st)"
  by (simp add: logActivity_def)

lemma logActivity_bound: "length (activityLog (logActivity s ty en d st)) \<le> 100"
  by (simp add: logActivity_log)

lemma set_if_truthy_log:
  "(\<And>j t. activityLog (setX j t) = activityLog t) \<Longrightarrow>
   activityLog (set_if_truthy v setX st) = activityLog st"
  by (simp add: set_if_truthy_def split: option.splits)

lemma import_parsed_bound:
  "length (activityLog st) \<le> 100 \<Longrightarrow>
   length (activityLog (snd (import_parsed s data st))) \<le> 100"
  by (simp add: import_parsed_def js_get_def logActivity_bound set_if_truthy_log Let_def)

lemma importBusinessData_bound:
  "length (activityLog st) \<le> 100 \<Longrightarrow>
   length (activityLog (snd (importBusinessData parse s jsonStr st))) \<le> 100"
  by (simp add: importBusinessData_def import_parsed_bound split: option.splits)

lemma perform_bound:
  assumes "length (activityLog st) \<le> 100" and "perform parse op st = Inr st'"
  shows "length (activityLog st') \<le> 100"
proof (cases op)
  case (Login pw)
  with assms show ?thesis by (auto simp: login_def)
next
  case Logout
  with assms show ?thesis by (auto simp: logout_def)
next
  case (AddMenuItem s item)
  with assms show ?thesis
    by (auto simp: addMenuItem_def logActivity_bound split: sum.splits)
next
  case (UpdateMenuItem s item)
  with assms show ?thesis
    by (auto simp: updateMenuItem_def logActivity_bound split: sum.splits if_splits)
next
  case (DeleteMenuItem s ident)
  with assms show ?thesis
    by (auto simp: deleteMenuItem_def logActivity_bound Let_def
             split: sum.splits if_splits option.splits)
next
  case (AddCategory s nm)
  with assms show ?thesis
    by (auto simp: addCategory_def logActivity_bound Let_def
             split: sum.splits if_splits bool.splits)
next
  case (RenameCategory s oldName newName)
  with assms show ?thesis
    by (auto simp: renameCategory_def logActivity_bound Let_def split: sum.splits if_splits)
next
  case (RemoveCategory s nm)
  with assms show ?thesis
    by (auto simp: removeCategory_def logActivity_bound split: sum.splits if_splits)
next
  case (UpdateDiscountMilestones s ms)
  with assms show ?thesis by (auto simp: updateDiscountMilestones_def logActivity_bound)
next
  case (UpdateSettings s newSettings)
  with assms show ?thesis by (auto simp: updateSettings_def logActivity_bound)
next
  case (PlaceOrder s d)
  with assms show ?thesis by (auto simp: placeOrder_def Let_def)
next
  case (UpdateOrderStatus orderId new_status)
  with assms show ?thesis by (auto simp: updateOrderStatus_def)
next
  case (ToggleOrderTakeaway orderId)
  with assms show ?thesis
    by (auto simp: toggleOrderTakeaway_def
             split: sum.splits if_splits option.splits json.splits)
next
  case (ClearHistory s)
  with assms show ?thesis by (auto simp: clearHistory_def logActivity_bound)
next
  case (ImportBusinessData s jsonStr)
  with assms show ?thesis by (auto simp: importBusinessData_bound)
qed

lemma run_bound:
  "length (activityLog st) \<le> 100 \<Longrightarrow> run parse ops st = Inr st' \<Longrightarrow>
   length (activityLog st') \<le> 100"
proof (induction ops arbitrary: st)
  case Nil
  then show ?case by simp
next
  case (Cons op ops)
  then show ?case by (auto split: sum.splits dest: perform_bound)
qed

text \<open>
  Claim C7. From a state whose activity log has at most 100 entries (it is empty when the
  provider is created), every sequence of operations that commits a state leaves at most
  100 entries; and in that state a logged mutation puts its entry first, keeps the others
  in order, and drops the last (oldest) one exactly when the log was full.
\<close>

theorem activityLog_capped:
  assumes "length (activityLog st) \<le> 100" and "run parse ops st = Inr st'"
  shows "length (activityLog st') \<le> 100
    \<and> activityLog (logActivity s ty en d st') =
        take 100 (\<lparr>entry_id = rand_id s, entry_type = ty, entity = en, description = d,
                    entry_timestamp = now s\<rparr> # activityLog st')
    \<and> (length (activityLog st') = 100 \<longrightarrow>
        activityLog (logActivity s ty en d st') =
          \<lparr>entry_id = rand_id s, entry_type = ty, entity = en, description = d,
           entry_timestamp = now s\<rparr> # butlast (activityLog st'))
    \<and> (length (activityLog st') < 100 \<longrightarrow>
        activityLog (logActivity s ty en d st') =
          \<lparr>entry_id = rand_id s, entry_type = ty, entity = en, description = d,
           entry_timestamp = now s\<rparr> # activityLog st')"
  using run_bound [OF assms] by (auto simp: logActivity_log butlast_conv_take)

theorem activityLog_capped_witness:
  "length (activityLog full_store) \<le> 100
   \<and> run ref_parse [PlaceOrder stamp0 (OrderData.truncate order1), ToggleOrderTakeaway ''none'']
        full_store = Inr (placeOrder stamp0 (OrderData.truncate order1) full_store)
   \<and> length (activityLog (placeOrder stamp0 (OrderData.truncate order1) full_store)) = 100
   \<and> activityLog (logActivity stamp0 SYSTEM SETTINGS ''Activity history was cleared''
         (placeOrder stamp0 (OrderData.truncate order1) full_store)) =
       \<lparr>entry_id = ''k3x9q2m1z'', entry_type = SYSTEM, entity = SETTINGS,
        description = ''Activity history was cleared'', entry_timestamp = 1700000000000\<rparr>
       # replicate 99 entry0"
proof -
  let ?st' = "placeOrder stamp0 (OrderData.truncate order1) full_store"
  have h1: "length (activityLog full_store) \<le> 100"
    by (simp add: full_store_def)
  have h2: "run ref_parse [PlaceOrder stamp0 (OrderData.truncate order1), ToggleOrderTakeaway ''none'']
              full_store = Inr ?st'"
    by (simp add: toggleOrderTakeaway_def placeOrder_def full_store_def store0_def order1_def
          stamp0_def Let_def)
  have h3: "activityLog ?st' = replicate 100 entry0"
    by (simp add: placeOrder_def full_store_def Let_def)
  have h4: "butlast (replicate 100 entry0) = replicate 99 entry0"
    by (simp add: butlast_conv_take)
  from activityLog_capped [OF h1 h2, of stamp0 SYSTEM SETTINGS "''Activity history was cleared''"]
  show ?thesis using h1 h2 h3 h4 by (simp add: stamp0_def)
qed

section \<open>Arithmetic on numbers\<close>

lemma bitlen_le: "bitlen n \<le> k \<longleftrightarrow> n < 2 ^ k"
proof (induction k arbitrary: n)
  case 0
  then show ?case by (subst bitlen.simps) simp
next
  case (Suc k)
  have "n div 2 < 2 ^ k \<longleftrightarrow> n < 2 * 2 ^ k" by auto
  with Suc [of "n div 2"] show ?case by (subst bitlen.simps) auto
qed


lemma round_double_exact: "is_double x \<Longrightarrow> round_double x = Fin x"
proof -
  assume d: "is_double x"
  show ?thesis
  proof (cases "bitlen (nat \<bar>x\<bar>) \<le> 53")
    case True
    then show ?thesis by (simp add: round_double_def)
  next
    case False
    let ?k = "bitlen (nat \<bar>x\<bar>) - 53"
    from d False have dv: "(2::int) ^ ?k dvd x" and b: "\<bar>x\<bar> < 2 ^ 2098"
      by (auto simp: is_double_def)
    from dv have r: "x mod 2 ^ ?k = 0" and q: "x div 2 ^ ?k * 2 ^ ?k = x" by auto
    have h: "\<not> (2::int) ^ (?k - 1) < 0" "(0::int) \<noteq> 2 ^ (?k - 1)" by simp_all
    from b have "\<not> 2 ^ 2098 \<le> x" "\<not> x \<le> - (2 ^ 2098)" by auto
    with False r q h show ?thesis
      by (simp add: round_double_def Let_def)
  qed
qed

lemma is_double_int:
  assumes "\<bar>c\<bar> < 2 ^ 53"
  shows "is_double (c * 2 ^ 1074)"
proof -
  let ?x = "c * 2 ^ 1074"
  from assms have "\<bar>c\<bar> * 2 ^ 1074 < 2 ^ 53 * (2 ^ 1074 :: int)" by simp
  then have lt: "\<bar>?x\<bar> < 2 ^ 1127" by (simp add: abs_mult)
  then have "nat \<bar>?x\<bar> < 2 ^ 1127"
    by (metis nat_less_numeral_power_cancel_iff)
  then have bl: "bitlen (nat \<bar>?x\<bar>) \<le> 1127" by (simp add: bitlen_le)
  then have "(2::int) ^ (bitlen (nat \<bar>?x\<bar>) - 53) dvd 2 ^ 1074"
    by (intro le_imp_power_dvd) simp
  then have dv: "(2::int) ^ (bitlen (nat \<bar>?x\<bar>) - 53) dvd ?x" by (rule dvd_mult)
  have "(2::int) ^ 1127 < 2 ^ 2098" by simp
  with lt have "\<bar>?x\<bar> < 2 ^ 2098" by linarith
  with dv show ?thesis unfolding is_double_def by blast
qed

lemma num_of_int_small: "\<bar>c\<bar> < 2 ^ 53 \<Longrightarrow> num_of_int c = Fin (c * 2 ^ 1074)"
  unfolding num_of_int_def by (rule round_double_exact, rule is_double_int)

lemma js_add_small:
  assumes "\<bar>a + b\<bar> < 2 ^ 53"
  shows "js_add (Fin (a * 2 ^ 1074)) (Fin (b * 2 ^ 1074)) = Fin ((a + b) * 2 ^ 1074)"
proof -
  have "js_add (Fin (a * 2 ^ 1074)) (Fin (b * 2 ^ 1074)) = round_double (a * 2 ^ 1074 + b * 2 ^ 1074)"
    by (simp only: js_add.simps)
  also have "a * 2 ^ 1074 + b * 2 ^ 1074 = (a + b) * (2 ^ 1074 :: int)"
    by (simp only: distrib_right)
  also have "round_double ((a + b) * 2 ^ 1074) = Fin ((a + b) * 2 ^ 1074)"
    by (rule round_double_exact, rule is_double_int, rule assms)
  finally show ?thesis .
qed


lemma js_add_int:
  assumes "\<bar>a\<bar> < 2 ^ 53" and "\<bar>b\<bar> < 2 ^ 53" and "\<bar>a + b\<bar> < 2 ^ 53"
  shows "js_add (num_of_int a) (num_of_int b) = num_of_int (a + b)"
  by (simp only: num_of_int_small [OF assms(1)] num_of_int_small [OF assms(2)]
        num_of_int_small [OF assms(3)] js_add_small [OF assms(3)])

lemma js_sub_int:
  assumes "\<bar>a\<bar> < 2 ^ 53" and "\<bar>b\<bar> < 2 ^ 53" and "\<bar>a - b\<bar> < 2 ^ 53"
  shows "js_add (num_of_int a) (js_neg (num_of_int b)) = num_of_int (a - b)"
proof -
  from assms(2) have nb: "\<bar>- b\<bar> < 2 ^ 53" by simp
  have "js_neg (num_of_int b) = num_of_int (- b)"
    by (simp only: num_of_int_small [OF assms(2)] num_of_int_small [OF nb] js_neg.simps
          mult_minus_left)
  moreover from assms(3) have "\<bar>a + - b\<bar> < 2 ^ 53" by simp
  ultimately show ?thesis
    using js_add_int [OF assms(1) nb] by simp
qed




section \<open>Takeaway toggling\<close>

lemma toggle_order_id [simp]: "order_id (toggle_order c i ord) = order_id ord"
  by (simp add: toggle_order_def Let_def)


lemma toggle_order_other: "order_id ord \<noteq> i \<Longrightarrow> toggle_order c i ord = ord"
  by (simp add: toggle_order_def)

lemma map_toggle_absent:
  "i \<notin> set (map order_id os) \<Longrightarrow> map (toggle_order c i) os = os"
  by (induction os) (auto simp: toggle_order_other)


lemma toggle_numeric:
  assumes "get_prop ''packingCharge'' (settings st) = Some (JNum c)"
  shows "toggleOrderTakeaway i st =
           Inr (st\<lparr>orders := map (toggle_order (num_of_int c) i) (orders st)\<rparr>)"
proof -
  from assms have "settings st \<noteq> JNull" by auto
  with assms show ?thesis
    by (simp add: toggleOrderTakeaway_def js_get_def map_toggle_absent)
qed




text \<open>
  Claim C2, at the input where the code departs from it. The order is a takeaway order with
  a packing charge of 20 inside its total of 120; the settings now say 30. Turning takeaway
  off takes 30 from the total, not the 20 that were on the order, and leaves 90.
\<close>

theorem toggle_off_subtracts_settings_charge:
  "isTakeaway order1 \<and> packingCharge order1 = num_of_int 20 \<and> order_total order1 = num_of_int 120
   \<and> get_prop ''packingCharge'' (settings store0) = Some (JNum 30)
   \<and> toggleOrderTakeaway ''o1'' store0 =
     Inr (store0\<lparr>orders := [order1\<lparr>isTakeaway := False, packingCharge := num_of_int 0,
                                   order_total := num_of_int 90\<rparr>]\<rparr>)"
proof -
  have s: "js_add (num_of_int 120) (js_neg (num_of_int 30)) = num_of_int 90"
    using js_sub_int [of 120 30] by simp
  have z: "num_of_int 0 = Fin 0"
    using num_of_int_small [of 0] by simp
  have g: "get_prop ''packingCharge'' (settings store0) = Some (JNum 30)"
    by (simp add: store0_def)
  have o: "orders store0 = [order1]" by (simp add: store0_def)
  have "toggle_order (num_of_int 30) ''o1'' order1 =
          order1\<lparr>isTakeaway := False, packingCharge := num_of_int 0, order_total := num_of_int 90\<rparr>"
    by (simp add: toggle_order_def order1_def Let_def s z del: js_add.simps)
  with toggle_numeric [OF g, of "''o1''"] o show ?thesis
    by (simp add: g) (simp add: order1_def)
qed

section \<open>The reference codec reads back what it prints\<close>




















lemma skip_ws_start [simp]: "\<not> is_ws c \<Longrightarrow> skip_ws (c # s) = c # s"
  by (simp add: skip_ws_def)

lemma is_ws_simps [simp]:
  "\<not> is_ws CHR ''[''" "\<not> is_ws CHR '']''" "\<not> is_ws CHR ''{''" "\<not> is_ws CHR ''}''"
  "\<not> is_ws CHR '',''" "\<not> is_ws CHR '':''" "\<not> is_ws CHR 0x22"
  by (simp_all add: is_ws_def)

lemma delimited_simps [simp]:
  "delimited []" "delimited (CHR '','' # r)" "delimited (CHR '']'' # r)" "delimited (CHR ''}'' # r)"
  by (simp_all add: delimited_def is_digit_def)









section \<open>Export followed by import\<close>





section \<open>What import accepts\<close>

lemma ref_parse_null: "ref_parse ''null'' = Some JNull"
  by code_simp

text \<open>
  The text \<^verbatim>\<open>null\<close> parses, to \<^verbatim>\<open>null\<close>; reading \<^verbatim>\<open>data.menuItems\<close> then throws, and the
  import returns false.
\<close>

theorem import_null_counterexample:
  "ref_parse ''null'' = Some JNull
   \<and> importBusinessData ref_parse stamp0 ''null'' store0 = (False, store0)"
  using ref_parse_null by (simp add: importBusinessData_def import_parsed_def js_get_def)

lemma import_parsed_null: "import_parsed s JNull st = (False, st)"
  by (simp add: import_parsed_def js_get_def)

lemma import_parsed_value:
  "data \<noteq> JNull \<Longrightarrow>
   import_parsed s data st =
     (True, logActivity s SYSTEM SETTINGS ''Imported external business configuration''
        (st\<lparr>menuItems := (if truthy (get_prop ''menuItems'' data)
                           then the (get_prop ''menuItems'' data) else menuItems st),
            categories := (if truthy (get_prop ''categories'' data)
                           then the (get_prop ''categories'' data) else categories st),
            settings := (if truthy (get_prop ''settings'' data)
                           then the (get_prop ''settings'' data) else settings st),
            discountMilestones := (if truthy (get_prop ''discountMilestones'' data)
                           then the (get_prop ''discountMilestones'' data)
                           else discountMilestones st)\<rparr>))"
  by (auto simp: import_parsed_def js_get_def set_if_truthy_def Let_def split: option.splits)

text \<open>
  Claim C10, as amended. \<^verbatim>\<open>importBusinessData\<close> returns true if and only if the text
  parses to a value other than \<^verbatim>\<open>null\<close>. It then replaces each of the four collections
  by the property of that name when the property is truthy, whatever its type, keeps the
  collection otherwise, and puts a SYSTEM/SETTINGS entry in front of the activity log, also
  when no property is present. When it returns false the state is unchanged.
\<close>

theorem import_succeeds_iff:
  "(fst (importBusinessData parse s jsonStr st) \<longleftrightarrow>
      (\<exists>data. parse jsonStr = Some data \<and> data \<noteq> JNull))
   \<and> (\<not> fst (importBusinessData parse s jsonStr st) \<longrightarrow>
        snd (importBusinessData parse s jsonStr st) = st)
   \<and> (\<forall>data. parse jsonStr = Some data \<and> data \<noteq> JNull \<longrightarrow>
        snd (importBusinessData parse s jsonStr st) =
          st\<lparr>menuItems := (if truthy (get_prop ''menuItems'' data)
                            then the (get_prop ''menuItems'' data) else menuItems st),
             categories := (if truthy (get_prop ''categories'' data)
                            then the (get_prop ''categories'' data) else categories st),
             settings := (if truthy (get_prop ''settings'' data)
                            then the (get_prop ''settings'' data) else settings st),
             discountMilestones := (if truthy (get_prop ''discountMilestones'' data)
                            then the (get_prop ''discountMilestones'' data)
                            else discountMilestones st),
             activityLog :=
               take 100 (\<lparr>entry_id = rand_id s, entry_type = SYSTEM, entity = SETTINGS,
                           description = ''Imported external business configuration'',
                           entry_timestamp = now s\<rparr> # activityLog st)\<rparr>)"
proof (cases "parse jsonStr")
  case None
  then show ?thesis by (simp add: importBusinessData_def)
next
  case (Some data)
  show ?thesis
  proof (cases "data = JNull")
    case True
    with Some show ?thesis by (simp add: importBusinessData_def import_parsed_null)
  next
    case False
    with Some show ?thesis
      by (simp add: importBusinessData_def import_parsed_value logActivity_def)
  qed
qed

lemma ref_parse_untyped:
  "ref_parse (ref_stringify (JObj [(''menuItems'', JNum 7), (''settings'', JStr [])])) =
     Some (JObj [(''menuItems'', JNum 7), (''settings'', JStr [])])"
  by code_simp

lemma ref_parse_five: "ref_parse ''5'' = Some (JNum 5)"
  by code_simp

theorem import_succeeds_iff_witness:
  "ref_parse ''5'' = Some (JNum 5) \<and> JNum 5 \<noteq> JNull
   \<and> importBusinessData ref_parse stamp0 ''5'' store0 =
       (True, store0\<lparr>activityLog :=
          [\<lparr>entry_id = ''k3x9q2m1z'', entry_type = SYSTEM, entity = SETTINGS,
            description = ''Imported external business configuration'',
            entry_timestamp = 1700000000000\<rparr>]\<rparr>)
   \<and> menuItems (snd (importBusinessData ref_parse stamp0
        (ref_stringify (JObj [(''menuItems'', JNum 7), (''settings'', JStr [])])) store0)) = JNum 7
   \<and> settings (snd (importBusinessData ref_parse stamp0
        (ref_stringify (JObj [(''menuItems'', JNum 7), (''settings'', JStr [])])) store0)) =
       settings store0"
proof -
  note r5 = import_succeeds_iff [of ref_parse stamp0 "''5''" store0]
  have f5: "fst (importBusinessData ref_parse stamp0 ''5'' store0)"
    using r5 ref_parse_five by simp
  have s5: "snd (importBusinessData ref_parse stamp0 ''5'' store0) =
       store0\<lparr>activityLog :=
          [\<lparr>entry_id = ''k3x9q2m1z'', entry_type = SYSTEM, entity = SETTINGS,
            description = ''Imported external business configuration'',
            entry_timestamp = 1700000000000\<rparr>]\<rparr>"
    using r5 ref_parse_five by (simp add: store0_def stamp0_def)
  note ru = import_succeeds_iff
      [of ref_parse stamp0
          "ref_stringify (JObj [(''menuItems'', JNum 7), (''settings'', JStr [])])" store0]
  have u: "menuItems (snd (importBusinessData ref_parse stamp0
        (ref_stringify (JObj [(''menuItems'', JNum 7), (''settings'', JStr [])])) store0)) = JNum 7
     \<and> settings (snd (importBusinessData ref_parse stamp0
        (ref_stringify (JObj [(''menuItems'', JNum 7), (''settings'', JStr [])])) store0)) =
       settings store0"
    using ru ref_parse_untyped by simp
  show ?thesis using ref_parse_five f5 s5 u by (simp add: prod_eq_iff)
qed


section \<open>Stored values that are the text undefined\<close>

text \<open>
  Claim C4, at the input where the code departs from it. The tenant has an emptied menu in
  storage and the text \<^verbatim>\<open>undefined\<close> under the orders key. The orders key is tested for
  truthiness only, so the text is parsed, the parse throws, and the \<^verbatim>\<open>catch\<close> block runs:
  the stored menu is replaced by the default menu and the settings keep their initial value
  instead of the default settings under the derived name. Under the menu key the same text
  is treated as absent, and the load is the one of an empty storage.
\<close>

theorem load_orders_undefined:
  "storage_orders_undefined (k_orders (getKeys ''my-cafe'')) = Some ''undefined''
   \<and> ref_parse ''undefined'' = None
   \<and> load_effect ref_parse storage_orders_undefined ''my-cafe'' =
       \<lparr>l_menuItems = Default, l_categories = Default, l_orders = Initial,
        l_discountMilestones = Initial, l_settings = Initial, l_activityLog = Initial,
        isInitialized = True, load_failed = True\<rparr>
   \<and> load_effect ref_parse storage_menu_undefined ''my-cafe'' =
       load_effect ref_parse storage_empty ''my-cafe''
   \<and> load_effect ref_parse storage_empty ''my-cafe'' =
       \<lparr>l_menuItems = Default, l_categories = Default, l_orders = Initial,
        l_discountMilestones = Initial, l_settings = DefaultNamed (Some ''MY CAFE''),
        l_activityLog = Initial, isInitialized = True, load_failed = False\<rparr>"
  by code_simp

end
